theory Spec2Isabelle
  imports Main "HOL-Library.Word"
begin

unbundle bit_operations_syntax

section \<open>The Ethernet frame codec of packet/eth/pkt.go\<close>

text \<open>
  The Go package \<open>eth\<close> encodes and decodes the 14-byte Ethernet header (EthernetII and
  802.3) and links a frame to the next layer of a packet stack. The theory embeds its
  functions as HOL functions: \<open>uint16\<close> is \<open>16 word\<close> (so \<open>+\<close> wraps as Go's does), a
  byte slice is a list of \<open>8 word\<close>, the mutated receiver \<open>p\<close> and the mutated buffer
  are passed in and returned, a Go \<open>error\<close> result is an \<open>error option\<close> (\<open>None\<close> is
  \<open>nil\<close>), and a run-time panic is the left summand of \<open>panic + 'a\<close>.
\<close>

subsection \<open>Types and constants\<close>

type_synonym byte = "8 word"
type_synonym uint16 = "16 word"

text \<open>\<open>type EtherType uint16\<close> and the constant block of lines 50 to 61. \<open>None\<close> is
  suffixed, the name being the constructor of \<open>option\<close>. \<open>LLDP\<close> is written
  \<open>0x088cc\<close> in the source, which is the 16-bit value \<open>0x88cc\<close>.\<close>

type_synonym EtherType = "16 word"

definition None_EtherType :: EtherType where "None_EtherType = 0x0000"
definition ARP :: EtherType where "ARP = 0x0806"
definition IPv4 :: EtherType where "IPv4 = 0x0800"
definition IPv6 :: EtherType where "IPv6 = 0x86dd"
definition LLC :: EtherType where "LLC = 0x0001"
definition LLDP :: EtherType where "LLDP = 0x088cc"
definition QinQ :: EtherType where "QinQ = 0x88a8"
definition TRILL :: EtherType where "TRILL = 0x22f3"
definition VLAN :: EtherType where "VLAN = 0x8100"
definition WoL :: EtherType where "WoL = 0x0842"

text \<open>Modelled from the spec: the canonical type registry \<open>packet.Type\<close> of the imported
  package \<open>packet\<close>, whose declaration is not part of the source at hand. The
  specification (section 6) names its enumerants: None, ARP, IPv4, IPv6, LLC, LLDP, VLAN,
  TRILL, WoL, Raw and Ethernet. The Go type is a 16-bit integer and the table below stores
  \<open>uint16(packet.X)\<close>; the numeric values are not known here, only that the enumerants
  are different values, which is what the constructors of a datatype are.\<close>

datatype packet_Type =
    packet_None | packet_ARP | packet_Eth | packet_IPv4 | packet_IPv6 | packet_LLC
  | packet_LLDP | packet_Raw | packet_TRILL | packet_VLAN | packet_WoL

text \<open>\<open>type Packet struct\<close> (lines 40 to 46), and the interface \<open>packet.Packet\<close> that the
  field \<open>pkt_payload\<close> holds. A payload is either a frame of this package or a layer
  implemented elsewhere; a nil payload is \<open>None\<close> of \<open>option\<close>.

  Modelled from the spec: the constructor \<open>Layer\<close> stands for any other implementation of
  the shared capability set (section 6). The frame codec observes of it its canonical type,
  its reported length and its payload; the byte list stands for the rest of its content.\<close>

datatype Packet =
    Packet (DstAddr: "byte list") (SrcAddr: "byte list") (Type: EtherType) (Length: uint16)
           (pkt_payload: "packet_Packet option")
and packet_Packet =
    Eth Packet
  | Layer packet_Type uint16 "byte list" "packet_Packet option"

datatype error = BufferUnderrun

datatype panic = TypeAssertion | NilDereference | SliceBounds

text \<open>An interface value passed as an argument, as \<open>other\<close> is to \<open>Answers\<close>: the nil
  interface, an interface that holds a nil \<open>*Packet\<close> (which is not equal to \<open>nil\<close> in
  Go), or one that holds a packet.\<close>

datatype packet_arg = NilInterface | NilPacketPtr | Value packet_Packet

definition of_payload :: "packet_Packet option \<Rightarrow> packet_arg" where
  "of_payload x = (case x of None \<Rightarrow> NilInterface | Some y \<Rightarrow> Value y)"

subsection \<open>The byte cursor\<close>

text \<open>Modelled from the spec: the cursor \<open>packet.Buffer\<close> of the imported package, which
  is not part of the source at hand. Section 6 gives its operations: \<open>writeBytes(slice)\<close>,
  \<open>writeUint16BE(v)\<close>, \<open>readExactly(n)\<close> and \<open>readUint16BE(&v) \<rightarrow> error\<close>. The cursor is
  the bytes \<open>buf\<close> and the read position \<open>off\<close>. A read that finds the bytes it asks for
  returns them (the 16-bit value in network byte order) and advances the position by as
  many (section 4.1); writes append, capacity being the collaborator's concern.

  What the cursor does when fewer bytes are left than a read asks for is given neither by
  the source nor, for the call sites here, by the specification: \<open>Next\<close> is called for a
  single result (\<open>net.HardwareAddr(raw_pkt.Next(6))\<close>), so it cannot hand back an error
  beside the slice; it returns some slice or panics. That behaviour is therefore a
  parameter of the model, \<open>Underrun\<close>: for either read, any result or a panic, with any
  new position, any value left in the target of \<open>ReadI\<close> and any error or none.\<close>

record Buffer =
  buf :: "byte list"
  off :: nat

record Underrun =
  short_Next :: "nat \<Rightarrow> Buffer \<Rightarrow> panic + (byte list \<times> Buffer)"
  short_ReadI :: "uint16 \<Rightarrow> Buffer \<Rightarrow> panic + (error option \<times> uint16 \<times> Buffer)"

definition unread :: "Buffer \<Rightarrow> byte list" where
  "unread b = drop (off b) (buf b)"

definition Len :: "Buffer \<Rightarrow> nat" where
  "Len b = length (unread b)"

definition Next :: "Underrun \<Rightarrow> nat \<Rightarrow> Buffer \<Rightarrow> panic + (byte list \<times> Buffer)" where
  "Next u n b =
     (if n \<le> Len b then Inr (take n (unread b), b\<lparr>off := off b + n\<rparr>)
      else short_Next u n b)"

definition be16 :: "byte \<Rightarrow> byte \<Rightarrow> uint16" where
  "be16 hi lo = push_bit 8 (ucast hi) OR ucast lo"

text \<open>\<open>ReadI(&p.Type)\<close> writes through the pointer: the model takes the old value of the
  target and returns the new one beside the error result.\<close>

definition ReadI ::
  "Underrun \<Rightarrow> uint16 \<Rightarrow> Buffer \<Rightarrow> panic + (error option \<times> uint16 \<times> Buffer)" where
  "ReadI u v b =
     (case unread b of
        hi # lo # rest \<Rightarrow> Inr (None, be16 hi lo, b\<lparr>off := off b + 2\<rparr>)
      | _ \<Rightarrow> short_ReadI u v b)"

definition Write :: "byte list \<Rightarrow> Buffer \<Rightarrow> Buffer" where
  "Write xs b = b\<lparr>buf := buf b @ xs\<rparr>"

definition WriteI :: "uint16 \<Rightarrow> Buffer \<Rightarrow> Buffer" where
  "WriteI v b = b\<lparr>buf := buf b @ [ucast (drop_bit 8 v), ucast v]\<rparr>"

text \<open>Three cursors that differ only on a short read, for the examples: one hands out the
  bytes that are left and reports BufferUnderrun from \<open>ReadI\<close>, one hands out an empty
  slice and stays where it is, one panics.\<close>

definition rest_on_underrun :: Underrun where
  "rest_on_underrun =
     \<lparr>short_Next = (\<lambda>n b. Inr (unread b, b\<lparr>off := off b + Len b\<rparr>)),
      short_ReadI = (\<lambda>v b. Inr (Some BufferUnderrun, v, b\<lparr>off := off b + Len b\<rparr>))\<rparr>"

definition nothing_on_underrun :: Underrun where
  "nothing_on_underrun =
     \<lparr>short_Next = (\<lambda>n b. Inr ([], b)),
      short_ReadI = (\<lambda>v b. Inr (Some BufferUnderrun, v, b))\<rparr>"

definition panic_on_underrun :: Underrun where
  "panic_on_underrun =
     \<lparr>short_Next = (\<lambda>n b. Inl SliceBounds),
      short_ReadI = (\<lambda>v b. Inl SliceBounds)\<rparr>"

subsection \<open>The type translation table\<close>

text \<open>\<open>ethertype_to_type_map\<close> (lines 157 to 168), in the source's order.\<close>

definition ethertype_to_type_map :: "(uint16 \<times> packet_Type) list" where
  "ethertype_to_type_map =
     [ (None_EtherType, packet_None),
       (ARP, packet_ARP),
       (IPv4, packet_IPv4),
       (IPv6, packet_IPv6),
       (LLC, packet_LLC),
       (LLDP, packet_LLDP),
       (VLAN, packet_VLAN),
       (QinQ, packet_VLAN),
       (TRILL, packet_TRILL),
       (WoL, packet_WoL) ]"

text \<open>\<open>EtherTypeToType\<close> (lines 171 to 179): the \<open>for ... range\<close> loop over the table is
  the recursion over the list, the \<open>return\<close> inside it the first branch.\<close>

fun EtherTypeToType_loop :: "(uint16 \<times> packet_Type) list \<Rightarrow> EtherType \<Rightarrow> packet_Type" where
  "EtherTypeToType_loop [] ethertype = packet_Raw"
| "EtherTypeToType_loop (t # ts) ethertype =
     (if fst t = ethertype then snd t else EtherTypeToType_loop ts ethertype)"

definition EtherTypeToType :: "EtherType \<Rightarrow> packet_Type" where
  "EtherTypeToType ethertype = EtherTypeToType_loop ethertype_to_type_map ethertype"

text \<open>\<open>TypeToEtherType\<close> (lines 182 to 190).\<close>

fun TypeToEtherType_loop :: "(uint16 \<times> packet_Type) list \<Rightarrow> packet_Type \<Rightarrow> EtherType" where
  "TypeToEtherType_loop [] pkttype = None_EtherType"
| "TypeToEtherType_loop (t # ts) pkttype =
     (if snd t = pkttype then fst t else TypeToEtherType_loop ts pkttype)"

definition TypeToEtherType :: "packet_Type \<Rightarrow> EtherType" where
  "TypeToEtherType pkttype = TypeToEtherType_loop ethertype_to_type_map pkttype"

subsection \<open>The frame\<close>

text \<open>\<open>Make\<close> (lines 63 to 69): two zeroed 6-byte addresses, \<open>Length\<close> 14, and the zero
  values of the fields left out, \<open>Type\<close> 0 and a nil payload.\<close>

definition Make :: Packet where
  "Make = Packet (replicate 6 0) (replicate 6 0) 0 14 None"

text \<open>The methods of the interface as called through an interface value: \<open>GetType\<close>
  (lines 91 to 93 for a frame), \<open>Payload\<close> (lines 134 to 136) and \<open>GetLength\<close>
  (lines 95 to 105). A foreign layer answers with what it carries.\<close>

fun packet_GetType :: "packet_Packet \<Rightarrow> packet_Type" where
  "packet_GetType (Eth p) = packet_Eth"
| "packet_GetType (Layer t l d pl) = t"

definition Payload :: "Packet \<Rightarrow> packet_Packet option" where
  "Payload p = pkt_payload p"

fun packet_Payload :: "packet_Packet \<Rightarrow> packet_Packet option" where
  "packet_Payload (Eth p) = Payload p"
| "packet_Payload (Layer t l d pl) = pl"

fun GetLength :: "Packet \<Rightarrow> uint16"
and packet_GetLength :: "packet_Packet \<Rightarrow> uint16" where
  "GetLength (Packet dst src ty len payload) =
     (if len > 0 \<and> ty = LLC then len
      else (case payload of
              Some pl \<Rightarrow> packet_GetLength pl + 14
            | None \<Rightarrow> 14))"
| "packet_GetLength (Eth p) = GetLength p"
| "packet_GetLength (Layer t l d pl) = l"

text \<open>\<open>PayloadType\<close> (lines 138 to 140).\<close>

definition PayloadType :: "Packet \<Rightarrow> packet_Type" where
  "PayloadType p = EtherTypeToType (Type p)"

text \<open>\<open>Answers\<close> (lines 75 to 89). Line 76 lets an interface that holds a nil \<open>*Packet\<close>
  pass (it is not \<open>nil\<close>, and \<open>GetType\<close> does not touch its receiver); line 80 then reads
  \<open>.Type\<close> through the nil pointer and panics. The type assertion \<open>other.(*Packet)\<close> panics
  on a value that reports the Ethernet type without being a frame of this package. The
  call \<open>p.Payload().Answers(other.Payload())\<close> dispatches on the payload of \<open>p\<close>: a frame
  runs this function again, a foreign layer runs its own method, which the parameter \<open>la\<close>
  stands for.\<close>

fun Answers ::
  "(packet_Packet \<Rightarrow> packet_Packet option \<Rightarrow> panic + bool) \<Rightarrow>
     Packet \<Rightarrow> packet_arg \<Rightarrow> panic + bool"
and packet_Answers ::
  "(packet_Packet \<Rightarrow> packet_Packet option \<Rightarrow> panic + bool) \<Rightarrow>
     packet_Packet \<Rightarrow> packet_Packet option \<Rightarrow> panic + bool" where
  "Answers la (Packet dst src ty len payload) NilInterface = Inr False"
| "Answers la (Packet dst src ty len payload) NilPacketPtr = Inl NilDereference"
| "Answers la (Packet dst src ty len payload) (Value other) =
     (if packet_GetType other \<noteq> packet_Eth then Inr False
      else (case other of
              Layer t l d pl \<Rightarrow> Inl TypeAssertion
            | Eth q \<Rightarrow>
                (if ty \<noteq> Type q then Inr False
                 else (case payload of
                         Some pl \<Rightarrow> packet_Answers la pl (packet_Payload other)
                       | None \<Rightarrow> Inr True))))"
| "packet_Answers la (Eth p) other = Answers la p (of_payload other)"
| "packet_Answers la (Layer t l d pl) other = la (Layer t l d pl) other"

text \<open>\<open>Pack\<close> (lines 107 to 118). Its only \<open>return\<close> is \<open>return nil\<close>.\<close>

definition Pack :: "Packet \<Rightarrow> Buffer \<Rightarrow> error option \<times> Buffer" where
  "Pack p raw_pkt =
     (let b1 = Write (DstAddr p) raw_pkt;
          b2 = Write (SrcAddr p) b1;
          b3 = (if Type p \<noteq> LLC then WriteI (Type p) b2 else WriteI (Length p) b2)
      in (None, b3))"

text \<open>\<open>Unpack\<close> (lines 120 to 132). A panic of the cursor ends the call. The error result
  of \<open>ReadI\<close> is not looked at, the test \<open>p.Type < 0x0600\<close> runs on whatever \<open>p.Type\<close>
  then holds, and the only \<open>return\<close> is \<open>return nil\<close>.\<close>

definition Unpack ::
  "Underrun \<Rightarrow> Packet \<Rightarrow> Buffer \<Rightarrow> panic + (error option \<times> Packet \<times> Buffer)" where
  "Unpack u p raw_pkt =
     (case Next u 6 raw_pkt of
        Inl x \<Rightarrow> Inl x
      | Inr (dst, b1) \<Rightarrow>
          (case Next u 6 b1 of
             Inl x \<Rightarrow> Inl x
           | Inr (src, b2) \<Rightarrow>
               (case ReadI u (Type p) b2 of
                  Inl x \<Rightarrow> Inl x
                | Inr (err, ty, b3) \<Rightarrow>
                    (if ty < 0x0600
                     then Inr (None, Packet dst src LLC ty (pkt_payload p), b3)
                     else Inr (None, Packet dst src ty (Length p) (pkt_payload p), b3)))))"

text \<open>\<open>SetPayload\<close> (lines 142 to 148). A nil \<open>pl\<close> makes \<open>pl.GetType()\<close> panic; the
  only \<open>return\<close> is \<open>return nil\<close>.\<close>

fun SetPayload :: "Packet \<Rightarrow> packet_Packet option \<Rightarrow> panic + (error option \<times> Packet)" where
  "SetPayload p None = Inl NilDereference"
| "SetPayload p (Some pl) =
     Inr (None, Packet (DstAddr p) (SrcAddr p) (TypeToEtherType (packet_GetType pl))
                       (Length p + packet_GetLength pl) (Some pl))"

section \<open>Properties\<close>

subsection \<open>The translation table\<close>

lemma EtherTypeToType_loop_find:
  "EtherTypeToType_loop ts e =
     (case find (\<lambda>t. fst t = e) ts of Some t \<Rightarrow> snd t | None \<Rightarrow> packet_Raw)"
  by (induction ts) simp_all

lemma TypeToEtherType_loop_find:
  "TypeToEtherType_loop ts k =
     (case find (\<lambda>t. snd t = k) ts of Some t \<Rightarrow> fst t | None \<Rightarrow> None_EtherType)"
  by (induction ts) simp_all

lemma EtherTypeToType_loop_absent:
  "e \<notin> fst ` set ts \<Longrightarrow> EtherTypeToType_loop ts e = packet_Raw"
  by (induction ts) auto

lemma TypeToEtherType_loop_absent:
  "k \<notin> snd ` set ts \<Longrightarrow> TypeToEtherType_loop ts k = None_EtherType"
  by (induction ts) auto

lemmas ethertype_defs =
  None_EtherType_def ARP_def IPv4_def IPv6_def LLC_def LLDP_def QinQ_def TRILL_def
  VLAN_def WoL_def

lemma canonical_types_of_table:
  "snd ` set ethertype_to_type_map =
     {packet_None, packet_ARP, packet_IPv4, packet_IPv6, packet_LLC, packet_LLDP,
      packet_VLAN, packet_TRILL, packet_WoL}"
  by (auto simp: ethertype_to_type_map_def)

text \<open>
  Claim C8. For every 16-bit EtherType the forward translation returns the canonical type
  of the first table entry whose EtherType matches, and the Raw sentinel when no entry
  matches; for every canonical type the reverse translation returns the EtherType of the
  first entry whose canonical type matches, and None (0x0000) when no entry matches. Both
  are total functions into the plain result type: there is no error to signal.
\<close>

theorem translation_first_match:
  "EtherTypeToType e =
     (case find (\<lambda>t. fst t = e) ethertype_to_type_map of
        Some t \<Rightarrow> snd t
      | None \<Rightarrow> packet_Raw)
   \<and> (e \<notin> fst ` set ethertype_to_type_map \<longrightarrow> EtherTypeToType e = packet_Raw)
   \<and> TypeToEtherType k =
     (case find (\<lambda>t. snd t = k) ethertype_to_type_map of
        Some t \<Rightarrow> fst t
      | None \<Rightarrow> None_EtherType)
   \<and> (k \<notin> snd ` set ethertype_to_type_map \<longrightarrow> TypeToEtherType k = 0x0000)"
  unfolding EtherTypeToType_def TypeToEtherType_def
  using EtherTypeToType_loop_find EtherTypeToType_loop_absent
    TypeToEtherType_loop_find TypeToEtherType_loop_absent
  by (simp add: None_EtherType_def)

theorem translation_first_match_witness:
  "(0x1234 :: EtherType) \<notin> fst ` set ethertype_to_type_map
   \<and> EtherTypeToType 0x1234 = packet_Raw
   \<and> packet_Eth \<notin> snd ` set ethertype_to_type_map
   \<and> TypeToEtherType packet_Eth = 0x0000
   \<and> EtherTypeToType QinQ = packet_VLAN
   \<and> TypeToEtherType packet_VLAN = VLAN"
  using translation_first_match [of "0x1234" packet_Eth]
    translation_first_match [of QinQ packet_VLAN]
  by (simp add: ethertype_to_type_map_def ethertype_defs)

text \<open>
  Claim C10. Every canonical type of the table's right-hand column is sent by the reverse
  translation to an EtherType that the forward translation sends back to it. The other
  composition is not the identity: Q-in-Q goes forward to VLAN and back to the primary
  VLAN EtherType, a different value.
\<close>

theorem reverse_then_forward_identity:
  "(\<forall>k \<in> snd ` set ethertype_to_type_map. EtherTypeToType (TypeToEtherType k) = k)
   \<and> TypeToEtherType (EtherTypeToType QinQ) = VLAN
   \<and> VLAN \<noteq> QinQ"
  unfolding canonical_types_of_table
  by (simp add: EtherTypeToType_def TypeToEtherType_def ethertype_to_type_map_def
      ethertype_defs)

theorem reverse_then_forward_identity_witness:
  "packet_VLAN \<in> snd ` set ethertype_to_type_map
   \<and> EtherTypeToType (TypeToEtherType packet_VLAN) = packet_VLAN"
  using reverse_then_forward_identity
  by (simp add: canonical_types_of_table)

subsection \<open>The cursor and the 16-bit field\<close>

lemma be16_hi: "ucast (drop_bit 8 (be16 hi lo)) = hi"
  unfolding be16_def
  by (rule bit_word_eqI) (auto simp: bit_simps dest: bit_imp_le_length)

lemma be16_lo: "ucast (be16 hi lo) = lo"
  unfolding be16_def
  by (rule bit_word_eqI) (auto simp: bit_simps)

lemma unread_advance: "unread (b\<lparr>off := off b + n\<rparr>) = drop n (unread b)"
  by (simp add: unread_def add.commute)

lemma Next_exact:
  assumes "unread b = xs @ ys" "length xs = n"
  shows "Next u n b = Inr (xs, b\<lparr>off := off b + n\<rparr>)"
  using assms by (simp add: Next_def Len_def)

lemma ReadI_ok:
  assumes "unread b = hi # lo # rest"
  shows "ReadI u v b = Inr (None, be16 hi lo, b\<lparr>off := off b + 2\<rparr>)"
  using assms by (simp add: ReadI_def)

lemma unread_header:
  assumes "14 \<le> Len b"
  obtains dst src hi lo rest where
    "unread b = dst @ src @ hi # lo # rest" "length dst = 6" "length src = 6"
proof -
  let ?u = "unread b"
  have l: "14 \<le> length ?u" using assms by (simp add: Len_def)
  have split: "?u = take 6 ?u @ take 6 (drop 6 ?u) @ drop 12 ?u"
    by (metis append_take_drop_id drop_drop numeral_Bit0)
  have "2 \<le> length (drop 12 ?u)" using l by simp
  then obtain hi lo rest where "drop 12 ?u = hi # lo # rest"
    by (cases "drop 12 ?u" rule: remdups_adj.cases) auto
  with split have "?u = take 6 ?u @ take 6 (drop 6 ?u) @ hi # lo # rest" by simp
  moreover have "length (take 6 ?u) = 6" "length (take 6 (drop 6 ?u)) = 6"
    using l by simp_all
  ultimately show ?thesis by (rule that)
qed

lemma Unpack_header:
  assumes u: "unread b = dst @ src @ hi # lo # rest"
    and d: "length dst = 6" and s: "length src = 6"
  shows "Unpack u p b =
     Inr (None,
      (if be16 hi lo < 0x0600 then Packet dst src LLC (be16 hi lo) (pkt_payload p)
       else Packet dst src (be16 hi lo) (Length p) (pkt_payload p)),
      b\<lparr>off := off b + 14\<rparr>)"
proof -
  let ?b1 = "b\<lparr>off := off b + 6\<rparr>"
  let ?b2 = "b\<lparr>off := off b + 12\<rparr>"
  have n1: "Next u 6 b = Inr (dst, ?b1)" using u d by (rule Next_exact)
  have u1: "unread ?b1 = src @ hi # lo # rest" using u d by (simp add: unread_advance)
  have "Next u 6 ?b1 = Inr (src, ?b1\<lparr>off := off ?b1 + 6\<rparr>)" using u1 s by (rule Next_exact)
  then have n2: "Next u 6 ?b1 = Inr (src, ?b2)" by simp
  have "unread ?b2 = drop 12 (unread b)" by (rule unread_advance)
  then have u2: "unread ?b2 = hi # lo # rest" using u d s by simp
  have "ReadI u (Type p) ?b2 = Inr (None, be16 hi lo, ?b2\<lparr>off := off ?b2 + 2\<rparr>)"
    using u2 by (rule ReadI_ok)
  then have r: "ReadI u (Type p) ?b2 = Inr (None, be16 hi lo, b\<lparr>off := off b + 14\<rparr>)"
    by simp
  show ?thesis by (simp add: Unpack_def n1 n2 r)
qed

lemma Pack_bytes:
  "Pack p out =
     (None, out\<lparr>buf := buf out @ DstAddr p @ SrcAddr p @
        (if Type p \<noteq> LLC then [ucast (drop_bit 8 (Type p)), ucast (Type p)]
         else [ucast (drop_bit 8 (Length p)), ucast (Length p)])\<rparr>)"
  by (simp add: Pack_def Write_def WriteI_def)

lemma Unpack_result:
  "Unpack u p b =
     (case Next u 6 b of
        Inl x \<Rightarrow> Inl x
      | Inr (dst, b1) \<Rightarrow>
          (case Next u 6 b1 of
             Inl x \<Rightarrow> Inl x
           | Inr (src, b2) \<Rightarrow>
               (case ReadI u (Type p) b2 of
                  Inl x \<Rightarrow> Inl x
                | Inr (err, ty, b3) \<Rightarrow>
                    Inr (None,
                         (if ty < 0x0600 then Packet dst src LLC ty (pkt_payload p)
                          else Packet dst src ty (Length p) (pkt_payload p)),
                         b3))))"
  by (simp add: Unpack_def split: sum.splits prod.splits)

subsection \<open>Decoding\<close>

text \<open>
  Claim C1. Decoding a buffer that holds at least 14 unread bytes returns nil, whatever the
  cursor would do on a short read. When the big-endian value of bytes 12 and 13 is below
  0x0600 the frame's \<open>Length\<close> is that value and its \<open>Type\<close> is the LLC pseudo
  EtherType; otherwise its \<open>Type\<close> is that value and its \<open>Length\<close> is the one the frame
  had before, not a value taken from the wire.
\<close>

theorem Unpack_type_or_length:
  assumes "14 \<le> Len b"
    and "raw = be16 (unread b ! 12) (unread b ! 13)"
  shows "\<exists>p' b'. Unpack u p b = Inr (None, p', b')
    \<and> (raw < 0x0600 \<longrightarrow> Length p' = raw \<and> Type p' = LLC)
    \<and> (\<not> raw < 0x0600 \<longrightarrow> Type p' = raw \<and> Length p' = Length p)"
proof -
  from assms(1) obtain dst src hi lo rest where
    u: "unread b = dst @ src @ hi # lo # rest" and d: "length dst = 6" and s: "length src = 6"
    by (rule unread_header)
  have "unread b ! 12 = hi" "unread b ! 13 = lo"
    using u d s by (simp_all add: nth_append)
  then have raw: "raw = be16 hi lo" using assms(2) by simp
  show ?thesis
    unfolding Unpack_header [OF u d s] raw by simp
qed

theorem Unpack_type_or_length_witness:
  "14 \<le> Len \<lparr>buf = [0xAA, 0xBB, 0xCC, 0xDD, 0xEE, 0xFF, 0x00, 0x11, 0x22, 0x33, 0x44, 0x55, 0x08, 0x00], off = 0\<rparr>
   \<and> Unpack panic_on_underrun Make
        \<lparr>buf = [0xAA, 0xBB, 0xCC, 0xDD, 0xEE, 0xFF, 0x00, 0x11, 0x22, 0x33, 0x44, 0x55, 0x08, 0x00], off = 0\<rparr> =
      Inr (None,
           Packet [0xAA, 0xBB, 0xCC, 0xDD, 0xEE, 0xFF] [0x00, 0x11, 0x22, 0x33, 0x44, 0x55] IPv4 14 None,
           \<lparr>buf = [0xAA, 0xBB, 0xCC, 0xDD, 0xEE, 0xFF, 0x00, 0x11, 0x22, 0x33, 0x44, 0x55, 0x08, 0x00], off = 14\<rparr>)
   \<and> 14 \<le> Len \<lparr>buf = [0xAA, 0xBB, 0xCC, 0xDD, 0xEE, 0xFF, 0x00, 0x11, 0x22, 0x33, 0x44, 0x55, 0x00, 0x20], off = 0\<rparr>
   \<and> Unpack panic_on_underrun Make
        \<lparr>buf = [0xAA, 0xBB, 0xCC, 0xDD, 0xEE, 0xFF, 0x00, 0x11, 0x22, 0x33, 0x44, 0x55, 0x00, 0x20], off = 0\<rparr> =
      Inr (None,
           Packet [0xAA, 0xBB, 0xCC, 0xDD, 0xEE, 0xFF] [0x00, 0x11, 0x22, 0x33, 0x44, 0x55] LLC 32 None,
           \<lparr>buf = [0xAA, 0xBB, 0xCC, 0xDD, 0xEE, 0xFF, 0x00, 0x11, 0x22, 0x33, 0x44, 0x55, 0x00, 0x20], off = 14\<rparr>)"
  using Unpack_type_or_length [of
      "\<lparr>buf = [0xAA, 0xBB, 0xCC, 0xDD, 0xEE, 0xFF, 0x00, 0x11, 0x22, 0x33, 0x44, 0x55, 0x08, 0x00], off = 0\<rparr>"
      "0x0800" panic_on_underrun Make]
    Unpack_type_or_length [of
      "\<lparr>buf = [0xAA, 0xBB, 0xCC, 0xDD, 0xEE, 0xFF, 0x00, 0x11, 0x22, 0x33, 0x44, 0x55, 0x00, 0x20], off = 0\<rparr>"
      "0x0020" panic_on_underrun Make]
  by (simp add: Unpack_def Next_def ReadI_def Len_def unread_def be16_def Make_def IPv4_def LLC_def)

text \<open>
  Claim C2, as amended. Decoding a buffer that holds fewer than 14 unread bytes never
  returns BufferUnderrun, nor any other error, whatever the cursor does on a short read:
  \<open>Unpack\<close> either returns nil or ends in a panic, and it panics exactly when one of the
  cursor's three reads does. When the reads return, the frame comes back with \<open>DstAddr\<close>
  and \<open>SrcAddr\<close> overwritten by the slices of the two \<open>Next(6)\<close> calls and with the test
  against 0x0600 applied to whatever \<open>ReadI\<close> left in \<open>Type\<close>, the error result of
  \<open>ReadI\<close> being dropped: the header is not decoded all-or-nothing.
\<close>

theorem Unpack_underrun:
  assumes "Len b < 14"
  shows "(\<forall>e p' b'. Unpack u p b \<noteq> Inr (Some e, p', b'))
    \<and> (\<forall>dst b1 src b2 err ty b3.
          Next u 6 b = Inr (dst, b1) \<longrightarrow> Next u 6 b1 = Inr (src, b2) \<longrightarrow>
          ReadI u (Type p) b2 = Inr (err, ty, b3) \<longrightarrow>
          Unpack u p b =
            Inr (None,
                 (if ty < 0x0600 then Packet dst src LLC ty (pkt_payload p)
                  else Packet dst src ty (Length p) (pkt_payload p)),
                 b3))
    \<and> (\<forall>x. Unpack u p b = Inl x \<longleftrightarrow>
          Next u 6 b = Inl x
          \<or> (\<exists>dst b1. Next u 6 b = Inr (dst, b1) \<and>
                (Next u 6 b1 = Inl x
                 \<or> (\<exists>src b2. Next u 6 b1 = Inr (src, b2) \<and> ReadI u (Type p) b2 = Inl x))))"
  unfolding Unpack_result
  by (auto split: sum.splits prod.splits)

theorem Unpack_underrun_witness:
  "Len \<lparr>buf = [1, 2, 3], off = 0\<rparr> < 14
   \<and> Next rest_on_underrun 6 \<lparr>buf = [1, 2, 3], off = 0\<rparr> =
       Inr ([1, 2, 3], \<lparr>buf = [1, 2, 3], off = 3\<rparr>)
   \<and> Next rest_on_underrun 6 \<lparr>buf = [1, 2, 3], off = 3\<rparr> =
       Inr ([], \<lparr>buf = [1, 2, 3], off = 3\<rparr>)
   \<and> ReadI rest_on_underrun (Type Make) \<lparr>buf = [1, 2, 3], off = 3\<rparr> =
       Inr (Some BufferUnderrun, 0, \<lparr>buf = [1, 2, 3], off = 3\<rparr>)
   \<and> Unpack rest_on_underrun Make \<lparr>buf = [1, 2, 3], off = 0\<rparr> =
       Inr (None, Packet [1, 2, 3] [] LLC 0 None, \<lparr>buf = [1, 2, 3], off = 3\<rparr>)
   \<and> Next panic_on_underrun 6 \<lparr>buf = [1, 2, 3], off = 0\<rparr> = Inl SliceBounds
   \<and> Unpack panic_on_underrun Make \<lparr>buf = [1, 2, 3], off = 0\<rparr> = Inl SliceBounds"
  using Unpack_underrun [of "\<lparr>buf = [1, 2, 3], off = 0\<rparr>" rest_on_underrun Make]
    Unpack_underrun [of "\<lparr>buf = [1, 2, 3], off = 0\<rparr>" panic_on_underrun Make]
  by (simp add: Unpack_def Next_def ReadI_def Len_def unread_def Make_def
      rest_on_underrun_def panic_on_underrun_def)

text \<open>
  The claim as stated fails on a fresh frame and a 3-byte buffer under each of the three
  example cursors: the result is nil with an overwritten frame, or a panic, and in no case
  the error BufferUnderrun with the frame left as it was.
\<close>

theorem Unpack_underrun_counterexample:
  "Len \<lparr>buf = [1, 2, 3], off = 0\<rparr> < 14
   \<and> Unpack rest_on_underrun Make \<lparr>buf = [1, 2, 3], off = 0\<rparr> =
       Inr (None, Packet [1, 2, 3] [] LLC 0 None, \<lparr>buf = [1, 2, 3], off = 3\<rparr>)
   \<and> Unpack nothing_on_underrun Make \<lparr>buf = [1, 2, 3], off = 0\<rparr> =
       Inr (None, Packet [] [] LLC 258 None, \<lparr>buf = [1, 2, 3], off = 2\<rparr>)
   \<and> Unpack panic_on_underrun Make \<lparr>buf = [1, 2, 3], off = 0\<rparr> = Inl SliceBounds
   \<and> Packet [1, 2, 3] [] LLC 0 None \<noteq> Make
   \<and> Packet [] [] LLC 258 None \<noteq> Make"
  by (simp add: Unpack_def Next_def ReadI_def Len_def unread_def Make_def be16_def
      rest_on_underrun_def nothing_on_underrun_def panic_on_underrun_def)

subsection \<open>Decoding and encoding again\<close>

text \<open>
  Claim C7. When the 16-bit field of the header is below 0x0600, decoding gives a frame of
  canonical payload type LLC whose \<open>Type\<close> is the LLC pseudo EtherType and whose \<open>Length\<close>
  is the field's value, and encoding that frame appends the 12 address bytes followed by
  the same two bytes that were decoded.
\<close>

theorem llc_roundtrip:
  assumes "unread b = dst @ src @ hi # lo # rest"
    and "length dst = 6" and "length src = 6"
    and "be16 hi lo < 0x0600"
  shows "\<exists>p' b'. Unpack u p b = Inr (None, p', b')
    \<and> PayloadType p' = packet_LLC
    \<and> Type p' = LLC
    \<and> Length p' = be16 hi lo
    \<and> Pack p' out = (None, out\<lparr>buf := buf out @ dst @ src @ [hi, lo]\<rparr>)"
  unfolding Unpack_header [OF assms(1-3)] Pack_bytes using assms(4)
  by (simp add: be16_hi be16_lo PayloadType_def EtherTypeToType_def ethertype_to_type_map_def
      ethertype_defs)

theorem llc_roundtrip_witness:
  "be16 0x00 0x20 < 0x0600
   \<and> Unpack panic_on_underrun Make \<lparr>buf = [0xAA, 0xBB, 0xCC, 0xDD, 0xEE, 0xFF, 0x00, 0x11, 0x22, 0x33, 0x44, 0x55, 0x00, 0x20], off = 0\<rparr> =
       Inr (None, Packet [0xAA, 0xBB, 0xCC, 0xDD, 0xEE, 0xFF] [0x00, 0x11, 0x22, 0x33, 0x44, 0x55] LLC 32 None,
            \<lparr>buf = [0xAA, 0xBB, 0xCC, 0xDD, 0xEE, 0xFF, 0x00, 0x11, 0x22, 0x33, 0x44, 0x55, 0x00, 0x20], off = 14\<rparr>)
   \<and> PayloadType (Packet [0xAA, 0xBB, 0xCC, 0xDD, 0xEE, 0xFF] [0x00, 0x11, 0x22, 0x33, 0x44, 0x55] LLC 32 None) = packet_LLC
   \<and> Pack (Packet [0xAA, 0xBB, 0xCC, 0xDD, 0xEE, 0xFF] [0x00, 0x11, 0x22, 0x33, 0x44, 0x55] LLC 32 None) \<lparr>buf = [], off = 0\<rparr> =
       (None, \<lparr>buf = [0xAA, 0xBB, 0xCC, 0xDD, 0xEE, 0xFF, 0x00, 0x11, 0x22, 0x33, 0x44, 0x55, 0x00, 0x20], off = 0\<rparr>)"
  using llc_roundtrip [of
      "\<lparr>buf = [0xAA, 0xBB, 0xCC, 0xDD, 0xEE, 0xFF, 0x00, 0x11, 0x22, 0x33, 0x44, 0x55, 0x00, 0x20], off = 0\<rparr>"
      "[0xAA, 0xBB, 0xCC, 0xDD, 0xEE, 0xFF]" "[0x00, 0x11, 0x22, 0x33, 0x44, 0x55]" "0x00" "0x20" "[]"
      panic_on_underrun Make "\<lparr>buf = [], off = 0\<rparr>"]
  by (simp add: unread_def be16_def Unpack_def Next_def ReadI_def Len_def Make_def LLC_def)

text \<open>
  Claim C3, as amended. When the 16-bit field of the header is 0x0600 or more, whether or
  not the table lists it and Q-in-Q included, decoding keeps it as the frame's \<open>Type\<close> and
  encoding the frame appends the original 14 bytes exactly. Neither \<open>Unpack\<close> nor \<open>Pack\<close>
  consults the translation table.
\<close>

theorem ethertype_roundtrip:
  assumes "unread b = dst @ src @ hi # lo # rest"
    and "length dst = 6" and "length src = 6"
    and "0x0600 \<le> be16 hi lo"
  shows "\<exists>p' b'. Unpack u p b = Inr (None, p', b')
    \<and> Type p' = be16 hi lo
    \<and> Pack p' out = (None, out\<lparr>buf := buf out @ dst @ src @ [hi, lo]\<rparr>)"
proof -
  from assms(4) have ge: "\<not> be16 hi lo < 0x0600" by simp
  have "be16 hi lo \<noteq> LLC" using assms(4) by (auto simp: LLC_def word_le_nat_alt)
  then show ?thesis
    unfolding Unpack_header [OF assms(1-3)] Pack_bytes using ge
    by (simp add: be16_hi be16_lo)
qed

theorem ethertype_roundtrip_witness:
  "(0x0600 :: uint16) \<le> be16 0x88 0xa8 \<and> be16 0x88 0xa8 = QinQ
   \<and> Unpack panic_on_underrun Make \<lparr>buf = [0xAA, 0xBB, 0xCC, 0xDD, 0xEE, 0xFF, 0x00, 0x11, 0x22, 0x33, 0x44, 0x55, 0x88, 0xa8], off = 0\<rparr> =
       Inr (None, Packet [0xAA, 0xBB, 0xCC, 0xDD, 0xEE, 0xFF] [0x00, 0x11, 0x22, 0x33, 0x44, 0x55] QinQ 14 None,
            \<lparr>buf = [0xAA, 0xBB, 0xCC, 0xDD, 0xEE, 0xFF, 0x00, 0x11, 0x22, 0x33, 0x44, 0x55, 0x88, 0xa8], off = 14\<rparr>)
   \<and> Pack (Packet [0xAA, 0xBB, 0xCC, 0xDD, 0xEE, 0xFF] [0x00, 0x11, 0x22, 0x33, 0x44, 0x55] QinQ 14 None) \<lparr>buf = [], off = 0\<rparr> =
       (None, \<lparr>buf = [0xAA, 0xBB, 0xCC, 0xDD, 0xEE, 0xFF, 0x00, 0x11, 0x22, 0x33, 0x44, 0x55, 0x88, 0xa8], off = 0\<rparr>)"
  using ethertype_roundtrip [of
      "\<lparr>buf = [0xAA, 0xBB, 0xCC, 0xDD, 0xEE, 0xFF, 0x00, 0x11, 0x22, 0x33, 0x44, 0x55, 0x88, 0xa8], off = 0\<rparr>"
      "[0xAA, 0xBB, 0xCC, 0xDD, 0xEE, 0xFF]" "[0x00, 0x11, 0x22, 0x33, 0x44, 0x55]" "0x88" "0xa8" "[]"
      panic_on_underrun Make "\<lparr>buf = [], off = 0\<rparr>"]
  by (simp add: unread_def be16_def QinQ_def Unpack_def Next_def ReadI_def Len_def Make_def)

text \<open>
  The exception the claim makes fails: a header whose field is Q-in-Q (0x88a8) is encoded
  again with 0x88a8, not with the primary VLAN EtherType 0x8100.
\<close>

theorem qinq_roundtrip_counterexample:
  "(QinQ, packet_VLAN) \<in> set ethertype_to_type_map \<and> 0x0600 \<le> QinQ
   \<and> QinQ = be16 0x88 0xa8 \<and> VLAN = be16 0x81 0x00
   \<and> Unpack panic_on_underrun Make \<lparr>buf = [0xAA, 0xBB, 0xCC, 0xDD, 0xEE, 0xFF, 0x00, 0x11, 0x22, 0x33, 0x44, 0x55, 0x88, 0xa8], off = 0\<rparr> =
       Inr (None, Packet [0xAA, 0xBB, 0xCC, 0xDD, 0xEE, 0xFF] [0x00, 0x11, 0x22, 0x33, 0x44, 0x55] QinQ 14 None,
            \<lparr>buf = [0xAA, 0xBB, 0xCC, 0xDD, 0xEE, 0xFF, 0x00, 0x11, 0x22, 0x33, 0x44, 0x55, 0x88, 0xa8], off = 14\<rparr>)
   \<and> buf (snd (Pack (Packet [0xAA, 0xBB, 0xCC, 0xDD, 0xEE, 0xFF] [0x00, 0x11, 0x22, 0x33, 0x44, 0x55] QinQ 14 None) \<lparr>buf = [], off = 0\<rparr>))
      = [0xAA, 0xBB, 0xCC, 0xDD, 0xEE, 0xFF, 0x00, 0x11, 0x22, 0x33, 0x44, 0x55, 0x88, 0xa8]
   \<and> buf (snd (Pack (Packet [0xAA, 0xBB, 0xCC, 0xDD, 0xEE, 0xFF] [0x00, 0x11, 0x22, 0x33, 0x44, 0x55] QinQ 14 None) \<lparr>buf = [], off = 0\<rparr>))
      \<noteq> [0xAA, 0xBB, 0xCC, 0xDD, 0xEE, 0xFF, 0x00, 0x11, 0x22, 0x33, 0x44, 0x55, 0x81, 0x00]"
  by (simp add: Unpack_def Pack_def Next_def ReadI_def Write_def WriteI_def unread_def Len_def
      be16_def Make_def ethertype_to_type_map_def ethertype_defs)

subsection \<open>Length and payload\<close>

lemma GetLength_eq:
  "GetLength p =
     (if Length p > 0 \<and> Type p = LLC then Length p
      else (case pkt_payload p of
              Some pl \<Rightarrow> packet_GetLength pl + 14
            | None \<Rightarrow> 14))"
  by (cases p) simp

text \<open>
  Claim C4, as amended. \<open>GetLength\<close> returns the stored \<open>Length\<close> when the frame's \<open>Type\<close>
  is LLC and \<open>Length\<close> is not zero; otherwise, with a payload, 14 plus the length the
  payload reports, the sum being the \<open>uint16\<close> sum, which wraps modulo 65536; otherwise
  14. A fresh frame gives 14. Without the LLC override the result is at least 14 as long
  as the payload reports at most 65521. The function is total and has no error result.
\<close>

theorem GetLength_cases:
  "(Type p = LLC \<and> Length p \<noteq> 0 \<longrightarrow> GetLength p = Length p)
   \<and> (\<not> (Type p = LLC \<and> Length p \<noteq> 0) \<longrightarrow> pkt_payload p = Some pl \<longrightarrow>
        GetLength p = 14 + packet_GetLength pl
        \<and> unat (GetLength p) = (14 + unat (packet_GetLength pl)) mod 65536
        \<and> (packet_GetLength pl \<le> 65521 \<longrightarrow> 14 \<le> GetLength p))
   \<and> (\<not> (Type p = LLC \<and> Length p \<noteq> 0) \<longrightarrow> pkt_payload p = None \<longrightarrow> GetLength p = 14)
   \<and> GetLength Make = 14"
proof -
  let ?llc = "Type p = LLC \<and> Length p \<noteq> 0"
  have w: "unat (14 + l) = (14 + unat l) mod 65536" for l :: uint16
    by (simp add: unat_word_ariths)
  have b: "14 \<le> 14 + l" if "l \<le> 65521" for l :: uint16
  proof -
    from that have "unat l \<le> 65521" by (simp add: word_le_nat_alt)
    then have "unat (14 + l) = 14 + unat l" unfolding w by simp
    then show ?thesis by (simp add: word_le_nat_alt)
  qed
  have llc: "GetLength p = Length p" if ?llc
    using that by (simp add: GetLength_eq word_greater_zero_iff)
  have some: "GetLength p = 14 + packet_GetLength pl" if "\<not> ?llc" "pkt_payload p = Some pl"
    using that by (auto simp: GetLength_eq word_greater_zero_iff)
  have none: "GetLength p = 14" if "\<not> ?llc" "pkt_payload p = None"
    using that by (auto simp: GetLength_eq word_greater_zero_iff)
  have fresh: "GetLength Make = 14" by (simp add: Make_def)
  from llc some none fresh w b show ?thesis by metis
qed

theorem GetLength_cases_witness:
  "GetLength (Packet [] [] LLC 32 (Some (Layer packet_LLC 100 [] None))) = 32
   \<and> GetLength (Packet [] [] IPv4 14 (Some (Layer packet_IPv4 20 [] None))) = 34
   \<and> (14 :: uint16) \<le> GetLength (Packet [] [] IPv4 14 (Some (Layer packet_IPv4 20 [] None)))
   \<and> GetLength (Packet [] [] IPv4 14 None) = 14"
  using GetLength_cases [of "Packet [] [] LLC 32 (Some (Layer packet_LLC 100 [] None))" "Layer packet_LLC 100 [] None"]
    GetLength_cases [of "Packet [] [] IPv4 14 (Some (Layer packet_IPv4 20 [] None))" "Layer packet_IPv4 20 [] None"]
    GetLength_cases [of "Packet [] [] IPv4 14 None" "Layer packet_IPv4 20 [] None"]
  by (simp add: ethertype_defs)

text \<open>
  The bound of the claim as stated fails: an IPv4 frame whose payload reports 65535 bytes
  has no LLC override and a reported length of 13.
\<close>

theorem GetLength_below_header_counterexample:
  "Type (Packet (replicate 6 0) (replicate 6 0) IPv4 14 (Some (Layer packet_IPv4 0xFFFF [] None))) \<noteq> LLC
   \<and> GetLength (Packet (replicate 6 0) (replicate 6 0) IPv4 14 (Some (Layer packet_IPv4 0xFFFF [] None))) = 13
   \<and> \<not> (14 \<le> GetLength (Packet (replicate 6 0) (replicate 6 0) IPv4 14 (Some (Layer packet_IPv4 0xFFFF [] None))))"
  by (simp add: ethertype_defs)

lemma TypeToEtherType_find:
  "TypeToEtherType k =
     (case find (\<lambda>t. snd t = k) ethertype_to_type_map of
        Some t \<Rightarrow> fst t
      | None \<Rightarrow> 0x0000)"
  by (simp add: TypeToEtherType_def TypeToEtherType_loop_find None_EtherType_def
      split: option.splits)

lemma unat_add3:
  "unat (a + b + c) = (unat a + unat b + unat c) mod 65536" for a b c :: uint16
  by (simp add: unat_word_ariths mod_add_left_eq)

text \<open>
  Claim C5, as amended. On a fresh frame \<open>SetPayload\<close> of a payload returns nil and leaves
  a frame that holds the payload and whose \<open>Type\<close> is the reverse translation of the
  payload's canonical type: the EtherType of the first table entry with that canonical
  type, the None EtherType 0x0000 when the table does not list it. \<open>GetLength\<close> then
  returns 14 plus the length \<open>L\<close> the payload reports taken modulo 65536, the sum being a
  \<open>uint16\<close> sum; that is 14 + \<open>L\<close> as long as \<open>L\<close> is at most 65521.
\<close>

theorem SetPayload_fresh:
  "\<exists>p'. SetPayload Make (Some pl) = Inr (None, p')
     \<and> pkt_payload p' = Some pl
     \<and> Type p' = TypeToEtherType (packet_GetType pl)
     \<and> Type p' =
         (case find (\<lambda>t. snd t = packet_GetType pl) ethertype_to_type_map of
            Some t \<Rightarrow> fst t
          | None \<Rightarrow> 0x0000)
     \<and> (packet_GetType pl \<notin> snd ` set ethertype_to_type_map \<longrightarrow> Type p' = 0x0000)
     \<and> GetLength p' = 14 + packet_GetLength pl
     \<and> unat (GetLength p') = (14 + unat (packet_GetLength pl)) mod 65536
     \<and> (unat (packet_GetLength pl) \<le> 65521 \<longrightarrow>
          unat (GetLength p') = 14 + unat (packet_GetLength pl))"
proof -
  let ?p' = "Packet (DstAddr Make) (SrcAddr Make) (TypeToEtherType (packet_GetType pl))
               (Length Make + packet_GetLength pl) (Some pl)"
  have s: "SetPayload Make (Some pl) = Inr (None, ?p')" by simp
  have l: "GetLength ?p' = 14 + packet_GetLength pl"
    by (simp add: Make_def add.commute)
  have n: "unat (14 + packet_GetLength pl) = (14 + unat (packet_GetLength pl)) mod 65536"
    by (simp add: unat_word_ariths)
  have e: "unat (14 + packet_GetLength pl) = 14 + unat (packet_GetLength pl)"
    if "unat (packet_GetLength pl) \<le> 65521"
    unfolding n using that by simp
  have f: "TypeToEtherType (packet_GetType pl) =
      (case find (\<lambda>t. snd t = packet_GetType pl) ethertype_to_type_map of
         Some t \<Rightarrow> fst t
       | None \<Rightarrow> 0x0000)"
    by (rule TypeToEtherType_find)
  have u: "TypeToEtherType (packet_GetType pl) = 0x0000"
    if "packet_GetType pl \<notin> snd ` set ethertype_to_type_map"
    using that TypeToEtherType_loop_absent
    by (simp add: TypeToEtherType_def None_EtherType_def)
  have "pkt_payload ?p' = Some pl" "Type ?p' = TypeToEtherType (packet_GetType pl)"
    by simp_all
  with s l n e f u show ?thesis by (metis Packet.sel(3))
qed

theorem SetPayload_fresh_witness:
  "packet_Raw \<notin> snd ` set ethertype_to_type_map
   \<and> SetPayload Make (Some (Layer packet_Raw 20 [] None)) =
       Inr (None, Packet (replicate 6 0) (replicate 6 0) 0x0000 34
                    (Some (Layer packet_Raw 20 [] None)))
   \<and> GetLength (Packet (replicate 6 0) (replicate 6 0) 0x0000 34
                   (Some (Layer packet_Raw 20 [] None))) = 34
   \<and> SetPayload Make (Some (Layer packet_VLAN 20 [] None)) =
       Inr (None, Packet (replicate 6 0) (replicate 6 0) 0x8100 34
                    (Some (Layer packet_VLAN 20 [] None)))
   \<and> SetPayload Make (Some (Layer packet_ARP 28 [] None)) =
       Inr (None, Packet (replicate 6 0) (replicate 6 0) 0x0806 42
                    (Some (Layer packet_ARP 28 [] None)))
   \<and> unat (GetLength (Packet (replicate 6 0) (replicate 6 0) 0x0806 42
                   (Some (Layer packet_ARP 28 [] None)))) = 14 + 28"
  using SetPayload_fresh [of "Layer packet_Raw 20 [] None"]
    SetPayload_fresh [of "Layer packet_VLAN 20 [] None"]
    SetPayload_fresh [of "Layer packet_ARP 28 [] None"]
  by (simp add: canonical_types_of_table Make_def ethertype_to_type_map_def ethertype_defs)

text \<open>
  The claim as stated fails for a payload that reports 65535 bytes: \<open>GetLength\<close> then
  returns 13, not 14 + 65535.
\<close>

theorem SetPayload_fresh_counterexample:
  "SetPayload Make (Some (Layer packet_IPv4 0xFFFF [] None)) =
     Inr (None, Packet (replicate 6 0) (replicate 6 0) IPv4 13
                  (Some (Layer packet_IPv4 0xFFFF [] None)))
   \<and> unat (packet_GetLength (Layer packet_IPv4 0xFFFF [] None)) = 65535
   \<and> unat (GetLength (Packet (replicate 6 0) (replicate 6 0) IPv4 13
                   (Some (Layer packet_IPv4 0xFFFF [] None)))) = 13
   \<and> (13 :: nat) \<noteq> 14 + 65535"
  by (simp add: Make_def TypeToEtherType_def ethertype_to_type_map_def ethertype_defs)

text \<open>
  Claim C9, as amended. Two calls of \<open>SetPayload\<close> on one frame, each with a payload that
  reports length \<open>L\<close>, both return nil and leave the cached \<open>Length\<close> raised by \<open>L\<close>
  twice in \<open>uint16\<close> arithmetic: the length before the calls plus 2\<open>L\<close>, modulo 65536. On
  a fresh frame that is (14 + 2\<open>L\<close>) mod 65536, which is 14 + 2\<open>L\<close> as long as \<open>L\<close> is at
  most 32760. The field is not recomputed from the payload now attached: for \<open>L\<close> other
  than 0 it differs from the length before the calls plus \<open>L\<close> once.
\<close>

theorem SetPayload_twice:
  assumes "packet_GetLength pl1 = L" and "packet_GetLength pl2 = L"
  shows "\<exists>p1 p2. SetPayload p (Some pl1) = Inr (None, p1)
     \<and> SetPayload p1 (Some pl2) = Inr (None, p2)
     \<and> pkt_payload p2 = Some pl2
     \<and> Length p2 = Length p + L + L
     \<and> unat (Length p2) = (unat (Length p) + 2 * unat L) mod 65536
     \<and> (p = Make \<longrightarrow> Length p2 = 14 + 2 * L)
     \<and> (p = Make \<longrightarrow> unat (Length p2) = (14 + 2 * unat L) mod 65536)
     \<and> (p = Make \<longrightarrow> unat L \<le> 32760 \<longrightarrow> unat (Length p2) = 14 + 2 * unat L)
     \<and> (L \<noteq> 0 \<longrightarrow> Length p2 \<noteq> Length p + packet_GetLength pl2)"
proof -
  let ?p1 = "Packet (DstAddr p) (SrcAddr p) (TypeToEtherType (packet_GetType pl1))
               (Length p + L) (Some pl1)"
  let ?p2 = "Packet (DstAddr p) (SrcAddr p) (TypeToEtherType (packet_GetType pl2))
               (Length p + L + L) (Some pl2)"
  have s1: "SetPayload p (Some pl1) = Inr (None, ?p1)" using assms by simp
  have s2: "SetPayload ?p1 (Some pl2) = Inr (None, ?p2)" using assms by simp
  have pay: "pkt_payload ?p2 = Some pl2" by simp
  have len: "Length ?p2 = Length p + L + L" by (simp only: Packet.sel)
  have n: "unat (a + L + L) = (unat a + 2 * unat L) mod 65536" for a :: uint16
  proof -
    have "unat a + unat L + unat L = unat a + 2 * unat L" by arith
    then show ?thesis unfolding unat_add3 by (rule arg_cong)
  qed
  have m: "unat (Length Make) = 14" by (simp add: Make_def)
  have f: "Length Make + L + L = 14 + 2 * L" by (simp add: Make_def)
  have nm: "unat (Length Make + L + L) = (14 + 2 * unat L) mod 65536"
    using n [of "Length Make"] unfolding m .
  have km: "unat (Length Make + L + L) = 14 + 2 * unat L" if "unat L \<le> 32760"
    unfolding nm using that by simp
  have w: "Length p + L + L \<noteq> Length p + packet_GetLength pl2" if "L \<noteq> 0"
    using that assms by simp
  have c5: "unat (Length ?p2) = (unat (Length p) + 2 * unat L) mod 65536"
    unfolding len by (rule n)
  have c6: "p = Make \<longrightarrow> Length ?p2 = 14 + 2 * L"
    unfolding len using f by blast
  have c7: "p = Make \<longrightarrow> unat (Length ?p2) = (14 + 2 * unat L) mod 65536"
    unfolding len using nm by blast
  have c8: "p = Make \<longrightarrow> unat L \<le> 32760 \<longrightarrow> unat (Length ?p2) = 14 + 2 * unat L"
    unfolding len using km by blast
  have c9: "L \<noteq> 0 \<longrightarrow> Length ?p2 \<noteq> Length p + packet_GetLength pl2"
    unfolding len using w by blast
  from s1 s2 pay len c5 c6 c7 c8 c9 show ?thesis by blast
qed

theorem SetPayload_twice_witness:
  "SetPayload Make (Some (Layer packet_IPv4 20 [] None)) =
     Inr (None, Packet (replicate 6 0) (replicate 6 0) IPv4 34
                  (Some (Layer packet_IPv4 20 [] None)))
   \<and> SetPayload (Packet (replicate 6 0) (replicate 6 0) IPv4 34
                    (Some (Layer packet_IPv4 20 [] None)))
         (Some (Layer packet_IPv4 20 [] None)) =
     Inr (None, Packet (replicate 6 0) (replicate 6 0) IPv4 54
                  (Some (Layer packet_IPv4 20 [] None)))
   \<and> unat (54 :: uint16) = 14 + 2 * unat (20 :: uint16)
   \<and> (54 :: uint16) \<noteq> 14 + 20"
  using SetPayload_twice [of "Layer packet_IPv4 20 [] None" 20 "Layer packet_IPv4 20 [] None" Make]
  by (simp add: Make_def TypeToEtherType_def ethertype_to_type_map_def ethertype_defs)

text \<open>
  The claim as stated fails for payloads that report 32768 bytes: after the second call
  the field of a fresh frame is 14 again, not 14 + 2 * 32768.
\<close>

theorem SetPayload_twice_counterexample:
  "SetPayload Make (Some (Layer packet_IPv4 0x8000 [] None)) =
     Inr (None, Packet (replicate 6 0) (replicate 6 0) IPv4 0x800E
                  (Some (Layer packet_IPv4 0x8000 [] None)))
   \<and> SetPayload (Packet (replicate 6 0) (replicate 6 0) IPv4 0x800E
                    (Some (Layer packet_IPv4 0x8000 [] None)))
         (Some (Layer packet_IPv4 0x8000 [] None)) =
     Inr (None, Packet (replicate 6 0) (replicate 6 0) IPv4 14
                  (Some (Layer packet_IPv4 0x8000 [] None)))
   \<and> unat (packet_GetLength (Layer packet_IPv4 0x8000 [] None)) = 32768
   \<and> unat (Length (Packet (replicate 6 0) (replicate 6 0) IPv4 14
                   (Some (Layer packet_IPv4 0x8000 [] None)))) = 14
   \<and> (14 :: nat) \<noteq> 14 + 2 * 32768"
  by (simp add: Make_def TypeToEtherType_def ethertype_to_type_map_def ethertype_defs)

subsection \<open>Response matching\<close>

lemma Answers_nil_Packet: "Answers la p NilPacketPtr = Inl NilDereference"
  by (cases p) simp

lemma Answers_not_a_frame:
  "Answers la p (Value (Layer packet_Eth l d pl)) = Inl TypeAssertion"
  by (cases p) simp




end
